theory Spec2Isabelle
  imports Complex_Main "HOL-Library.Sublist" "HOL-Library.Char_ord" "HOL-Library.List_Lexorder"
begin

section \<open>JavaScript values used by the tool handlers\<close>

text \<open>
  A JavaScript \<^verbatim>\<open>number\<close> is an IEEE double. The handlers only compare numbers and take a
  minimum, which is exact, so a finite double is modelled by the rational it denotes, next to
  the three special values. The two zeros are one value here; both are falsy.
\<close>

datatype jsnum = Finite rat | PosInf | NegInf | NaN

text \<open>Truthiness of a number: \<^verbatim>\<open>0\<close> and \<^verbatim>\<open>NaN\<close> are falsy.\<close>

fun truthy_num :: "jsnum \<Rightarrow> bool" where
  "truthy_num (Finite r) = (r \<noteq> 0)"
| "truthy_num PosInf = True"
| "truthy_num NegInf = True"
| "truthy_num NaN = False"

text \<open>\<^verbatim>\<open>a < b\<close> on numbers: every comparison with \<^verbatim>\<open>NaN\<close> is false.\<close>

fun js_less :: "jsnum \<Rightarrow> jsnum \<Rightarrow> bool" where
  "js_less (Finite a) (Finite b) = (a < b)"
| "js_less (Finite a) PosInf = True"
| "js_less NegInf (Finite b) = True"
| "js_less NegInf PosInf = True"
| "js_less _ _ = False"

text \<open>\<^verbatim>\<open>Math.min(a, b)\<close>: \<^verbatim>\<open>NaN\<close> if either argument is.\<close>

fun Math_min :: "jsnum \<Rightarrow> jsnum \<Rightarrow> jsnum" where
  "Math_min (Finite a) (Finite b) = Finite (min a b)"
| "Math_min (Finite a) PosInf = Finite a"
| "Math_min PosInf (Finite b) = Finite b"
| "Math_min PosInf PosInf = PosInf"
| "Math_min NaN _ = NaN"
| "Math_min _ NaN = NaN"
| "Math_min NegInf _ = NegInf"
| "Math_min _ NegInf = NegInf"

text \<open>\<^verbatim>\<open>x || d\<close> where \<^verbatim>\<open>x\<close> is an optional number: \<^verbatim>\<open>undefined\<close> is falsy.\<close>

fun num_or :: "jsnum option \<Rightarrow> jsnum \<Rightarrow> jsnum" where
  "num_or None d = d"
| "num_or (Some n) d = (if truthy_num n then n else d)"

text \<open>\<^verbatim>\<open>s || d\<close> where \<^verbatim>\<open>s\<close> is an optional string: \<^verbatim>\<open>undefined\<close> and \<^verbatim>\<open>''\<close> are falsy.\<close>

fun str_or :: "string option \<Rightarrow> string \<Rightarrow> string" where
  "str_or None d = d"
| "str_or (Some s) d = (if s = [] then d else s)"

text \<open>
  A thrown value. The collaborators (the AWS SDK clients) throw objects: instances of
  \<^verbatim>\<open>Error\<close> with a name and a message, or other objects, of which the handlers read at most
  the \<^verbatim>\<open>name\<close> property.
\<close>

datatype js_exception =
    ErrorInstance string string
  | OtherValue "string option"

fun error_name :: "js_exception \<Rightarrow> string option" where
  "error_name (ErrorInstance n m) = Some n"
| "error_name (OtherValue n) = n"

text \<open>\<^verbatim>\<open>error instanceof Error ? error.message : 'Unknown error'\<close>\<close>

fun message_or_unknown :: "js_exception \<Rightarrow> string" where
  "message_or_unknown (ErrorInstance n m) = m"
| "message_or_unknown (OtherValue n) = ''Unknown error''"

text \<open>Decimal rendering of a non-negative integer inside a template literal.\<close>

fun string_of_nat :: "nat \<Rightarrow> string" where
  "string_of_nat n =
     (if n < 10 then [char_of (48 + n)]
      else string_of_nat (n div 10) @ [char_of (48 + n mod 10)])"

declare string_of_nat.simps [simp del]

text \<open>\<^verbatim>\<open>s.split(sep)\<close> for a one-character separator: never the empty array.\<close>

fun split :: "char \<Rightarrow> string \<Rightarrow> string list" where
  "split sep [] = [[]]"
| "split sep (c # cs) =
     (if c = sep then [] # split sep cs
      else (case split sep cs of
              [] \<Rightarrow> [[c]]
            | p # ps \<Rightarrow> (c # p) # ps))"

text \<open>\<^verbatim>\<open>parts.join(sep)\<close>\<close>

fun join :: "string \<Rightarrow> string list \<Rightarrow> string" where
  "join sep [] = []"
| "join sep [p] = p"
| "join sep (p # q # ps) = p @ sep @ join sep (q # ps)"

text \<open>\<^verbatim>\<open>parts.pop()\<close> as an expression: the last element, \<^verbatim>\<open>undefined\<close> on an empty array.\<close>

fun pop :: "'a list \<Rightarrow> 'a option" where
  "pop [] = None"
| "pop (x # xs) = Some (last (x # xs))"

text \<open>\<^verbatim>\<open>s.replace(pat, rep)\<close> with a string pattern: only the first occurrence is replaced.\<close>

fun replace :: "string \<Rightarrow> string \<Rightarrow> string \<Rightarrow> string" where
  "replace pat rep [] = (if pat = [] then rep else [])"
| "replace pat rep (c # cs) =
     (if prefix pat (c # cs) then rep @ drop (length pat) (c # cs)
      else c # replace pat rep cs)"

section \<open>common/types.ts\<close>

record location =
  s3Uri :: string
  ltype :: string

record 'm SearchResult =
  content' :: string
  location :: location
  score :: jsnum
  metadata :: "'m option"

record content_block =
  type :: string
  text' :: string

record MCPToolResponse =
  content :: "content_block list"
  isError :: "bool option"

section \<open>bedrock-client.ts\<close>

record retrieve_command =
  knowledgeBaseId :: string
  retrievalQuery_text :: string
  numberOfResults :: jsnum

text \<open>
  One element of \<^verbatim>\<open>response.retrievalResults\<close>, read through the optional chains of the
  source: \<^verbatim>\<open>content?.text\<close>, \<^verbatim>\<open>location?.s3Location?.uri\<close>, \<^verbatim>\<open>score\<close>, \<^verbatim>\<open>metadata\<close>.
\<close>

record 'm retrieval_result =
  content_text :: "string option"
  s3Location_uri :: "string option"
  raw_score :: "jsnum option"
  raw_metadata :: "'m option"

text \<open>
  \<^verbatim>\<open>client.send(command)\<close> either throws or answers with the optional array
  \<^verbatim>\<open>retrievalResults\<close>.
\<close>

type_synonym 'm retrieve_client =
  "retrieve_command \<Rightarrow> js_exception + 'm retrieval_result list option"

definition to_SearchResult :: "'m retrieval_result \<Rightarrow> 'm SearchResult" where
  "to_SearchResult result =
     \<lparr>content' = str_or (content_text result) '''',
      location = \<lparr>s3Uri = str_or (s3Location_uri result) '''', ltype = ''S3''\<rparr>,
      score = num_or (raw_score result) (Finite 0),
      metadata = raw_metadata result\<rparr>"

text \<open>
  \<^verbatim>\<open>searchKnowledgeBase(query, maxResults = 5)\<close>. The knowledge base identifier comes from
  the process environment and the client is a module constant: both are parameters. The
  result pairs the command that was sent with what the function returns or throws.
\<close>

definition searchKnowledgeBase ::
  "string \<Rightarrow> 'm retrieve_client \<Rightarrow> string \<Rightarrow> jsnum option
     \<Rightarrow> retrieve_command \<times> (js_exception + 'm SearchResult list)" where
  "searchKnowledgeBase KNOWLEDGE_BASE_ID client_send query maxResults =
     (let command =
            \<lparr>knowledgeBaseId = KNOWLEDGE_BASE_ID,
             retrievalQuery_text = query,
             numberOfResults = (case maxResults of None \<Rightarrow> Finite 5 | Some n \<Rightarrow> n)\<rparr>
      in (command,
          case client_send command of
            Inl error \<Rightarrow> Inl error
          | Inr retrievalResults \<Rightarrow>
              Inr (map to_SearchResult
                     (case retrievalResults of None \<Rightarrow> [] | Some rs \<Rightarrow> rs))))"

section \<open>tools/search.ts\<close>

record search_args =
  query :: string
  max_results :: "jsnum option"

text \<open>The \<^verbatim>\<open>fileName\<close> of a result: \<^verbatim>\<open>s3Uri.split('/').pop() || 'unknown'\<close>.\<close>

definition fileName :: "string \<Rightarrow> string" where
  "fileName uri = str_or (pop (split (CHR ''/'') uri)) ''unknown''"

text \<open>
  The body of the \<^verbatim>\<open>forEach\<close> callback: what one result appends to the response. The
  rendering \<^verbatim>\<open>score.toFixed(3)\<close> is the engine's and is a parameter.
\<close>

definition result_section :: "(jsnum \<Rightarrow> string) \<Rightarrow> 'm SearchResult \<Rightarrow> nat \<Rightarrow> string" where
  "result_section toFixed3 result index =
     ''## Result '' @ string_of_nat (index + 1) @ '' (Score: '' @ toFixed3 (score result)
       @ '')\<newline>**Source:** `'' @ fileName (s3Uri (location result)) @ ''`\<newline>\<newline>''
       @ content' result @ ''\<newline>\<newline>---\<newline>\<newline>''"

text \<open>\<^verbatim>\<open>results.forEach((result, index) => response += ...)\<close> from a given index on.\<close>

fun append_results ::
  "(jsnum \<Rightarrow> string) \<Rightarrow> nat \<Rightarrow> 'm SearchResult list \<Rightarrow> string \<Rightarrow> string" where
  "append_results toFixed3 index [] response = response"
| "append_results toFixed3 index (result # results) response =
     append_results toFixed3 (index + 1) results
       (response @ result_section toFixed3 result index)"

definition text_block :: "string \<Rightarrow> content_block" where
  "text_block s = \<lparr>type = ''text'', text' = s\<rparr>"

text \<open>
  \<^verbatim>\<open>handleSearchTool(args)\<close>, paired with the command it sent to the retrieval service.
\<close>

definition handleSearchTool ::
  "string \<Rightarrow> 'm retrieve_client \<Rightarrow> (jsnum \<Rightarrow> string) \<Rightarrow> search_args
     \<Rightarrow> retrieve_command \<times> MCPToolResponse" where
  "handleSearchTool KNOWLEDGE_BASE_ID client_send toFixed3 args =
     (let maxResults = Math_min (num_or (max_results args) (Finite 5)) (Finite 10);
          (command, outcome) =
             searchKnowledgeBase KNOWLEDGE_BASE_ID client_send (query args) (Some maxResults)
      in (command,
          case outcome of
            Inl error \<Rightarrow>
              \<lparr>content =
                 [text_block (''Error searching documentation: '' @ message_or_unknown error)],
               isError = Some True\<rparr>
          | Inr results \<Rightarrow>
              if length results = 0 then
                \<lparr>content =
                   [text_block ''No relevant documentation found for your query. Try rephrasing or using different keywords.''],
                 isError = None\<rparr>
              else
                \<lparr>content =
                   [text_block
                      (append_results toFixed3 0 results
                         (''# Search Results for: \"'' @ query args @ ''\"\<newline>\<newline>Found ''
                            @ string_of_nat (length results) @ '' relevant section(s):\<newline>\<newline>''))],
                 isError = None\<rparr>))"

section \<open>tools/read.ts\<close>

record read_args =
  file_path :: string

datatype get_object_command = GetObjectCommand string string

text \<open>
  What the \<^verbatim>\<open>try\<close> block obtains from the object store for a
  \<^verbatim>\<open>GetObjectCommand {Bucket, Key}\<close>: a thrown value (from \<^verbatim>\<open>send\<close> or from
  \<^verbatim>\<open>transformToString\<close>), or the value of \<^verbatim>\<open>response.Body?.transformToString()\<close>, which
  is \<^verbatim>\<open>undefined\<close> when the response has no body.
\<close>

type_synonym get_object_client = "get_object_command \<Rightarrow> js_exception + string option"

text \<open>\<^verbatim>\<open>file_path.replace(/^\/+/, '')\<close>: the leading run of slashes is removed.\<close>

definition cleanPath :: "string \<Rightarrow> string" where
  "cleanPath p = dropWhile (\<lambda>c. c = CHR ''/'') p"

definition storage_key :: "string \<Rightarrow> string" where
  "storage_key p = ''smithy-docs/'' @ cleanPath p"

text \<open>
  \<^verbatim>\<open>handleReadTool(args)\<close>, paired with the command it sent to the object store. The bucket
  name comes from the process environment and is a parameter. The test \<^verbatim>\<open>!content\<close> holds for
  an absent content and for an empty one, that is when \<^verbatim>\<open>content || ''\<close> is empty.
\<close>

definition handleReadTool ::
  "string \<Rightarrow> get_object_client \<Rightarrow> read_args \<Rightarrow> get_object_command \<times> MCPToolResponse" where
  "handleReadTool BUCKET_NAME s3_send args =
     (let key = storage_key (file_path args);
          command = GetObjectCommand BUCKET_NAME key
      in (command,
          case s3_send command of
            Inr body \<Rightarrow>
              if str_or body [] = [] then
                \<lparr>content =
                   [text_block (''Document found but content is empty: '' @ file_path args)],
                 isError = Some True\<rparr>
              else
                \<lparr>content =
                   [text_block (''# '' @ file_path args @ ''\<newline>\<newline>'' @ str_or body [])],
                 isError = None\<rparr>
          | Inl error \<Rightarrow>
              if error_name error = Some ''NoSuchKey'' then
                \<lparr>content =
                   [text_block
                      (''Document not found: '' @ file_path args
                         @ ''\<newline>\<newline>Tip: Use search_smithy_docs to find available documents.'')],
                 isError = Some True\<rparr>
              else
                \<lparr>content =
                   [text_block (''Error reading document: '' @ message_or_unknown error)],
                 isError = Some True\<rparr>))"

section \<open>tools/list.ts\<close>

definition PREFIX :: string where
  "PREFIX = ''smithy-docs/''"

datatype list_objects_command = ListObjectsV2Command string string

text \<open>An element of \<^verbatim>\<open>response.Contents\<close>; its \<^verbatim>\<open>Key\<close> is optional.\<close>

datatype s3_object = S3Object (Key: "string option")

type_synonym list_objects_client =
  "list_objects_command \<Rightarrow> js_exception + s3_object list option"

text \<open>
  \<^verbatim>\<open>fileTree\<close> is a plain object used as a dictionary from directory name to the array of
  paths pushed so far: an association list of its own properties.
\<close>

type_synonym fileTree = "(string \<times> string list) list"

text \<open>
  A plain object inherits the properties of \<^verbatim>\<open>Object.prototype\<close>. For these names
  \<^verbatim>\<open>fileTree[dir]\<close> is truthy before anything is stored, so no array is created, and the
  inherited value has no \<^verbatim>\<open>push\<close>: the call throws a \<^verbatim>\<open>TypeError\<close>.
\<close>

definition object_prototype_keys :: "string list" where
  "object_prototype_keys =
     [''constructor'', ''hasOwnProperty'', ''isPrototypeOf'', ''propertyIsEnumerable'',
      ''toLocaleString'', ''toString'', ''valueOf'', ''__proto__'',
      ''__defineGetter__'', ''__defineSetter__'', ''__lookupGetter__'', ''__lookupSetter__'']"

text \<open>The message of that \<^verbatim>\<open>TypeError\<close> is the engine's; this is the wording of V8.\<close>

definition push_type_error :: js_exception where
  "push_type_error = ErrorInstance ''TypeError'' ''fileTree[dir].push is not a function''"

text \<open>
  \<^verbatim>\<open>if (!fileTree[dir]) fileTree[dir] = []; fileTree[dir].push(relativePath)\<close> for a
  name that is not inherited.
\<close>

fun tree_push :: "string \<Rightarrow> string \<Rightarrow> fileTree \<Rightarrow> fileTree" where
  "tree_push dir relativePath [] = [(dir, [relativePath])]"
| "tree_push dir relativePath ((d, paths) # tree) =
     (if d = dir then (d, paths @ [relativePath]) # tree
      else (d, paths) # tree_push dir relativePath tree)"

definition relative_path :: "string \<Rightarrow> string" where
  "relative_path key = replace PREFIX [] key"

text \<open>\<^verbatim>\<open>parts.length === 1 ? 'Root' : parts.slice(0, -1).join('/')\<close>\<close>

definition dir_of :: "string \<Rightarrow> string" where
  "dir_of relativePath =
     (let parts = split (CHR ''/'') relativePath
      in if length parts = 1 then ''Root'' else join ''/'' (butlast parts))"

text \<open>
  The first \<^verbatim>\<open>forEach\<close>: a file without a key (absent or empty, both falsy) is skipped; a
  throw ends the loop.
\<close>

fun group_files :: "s3_object list \<Rightarrow> fileTree \<Rightarrow> js_exception + fileTree" where
  "group_files [] tree = Inr tree"
| "group_files (file # files) tree =
     (if str_or (Key file) [] = [] then group_files files tree
      else
        (let relativePath = relative_path (str_or (Key file) []);
             dir = dir_of relativePath
         in if dir \<in> set object_prototype_keys then Inl push_type_error
            else group_files files (tree_push dir relativePath tree)))"

text \<open>The relative paths that the first \<^verbatim>\<open>forEach\<close> pushes, in the order of the listing.\<close>

definition keyed_paths :: "s3_object list \<Rightarrow> string list" where
  "keyed_paths files =
     map (\<lambda>file. relative_path (str_or (Key file) []))
       (filter (\<lambda>file. str_or (Key file) [] \<noteq> []) files)"

text \<open>\<^verbatim>\<open>fileTree[dir]\<close> for an own property.\<close>

definition files_in :: "fileTree \<Rightarrow> string \<Rightarrow> string list" where
  "files_in tree dir = (case map_of tree dir of None \<Rightarrow> [] | Some paths \<Rightarrow> paths)"

text \<open>
  \<^verbatim>\<open>Object.keys(fileTree).sort()\<close>: the default comparison orders strings by their code
  units, lexicographically.
\<close>

definition sorted_dirs :: "fileTree \<Rightarrow> string list" where
  "sorted_dirs tree = sort (map fst tree)"

text \<open>What the callback of the second \<^verbatim>\<open>forEach\<close> appends for one directory.\<close>

definition dir_section :: "fileTree \<Rightarrow> string \<Rightarrow> string" where
  "dir_section tree dir =
     ''## '' @ dir @ ''\<newline>\<newline>''
       @ concat (map (\<lambda>file. ''- `'' @ file @ ''`\<newline>'') (files_in tree dir))
       @ ''\<newline>''"

definition list_header :: "nat \<Rightarrow> string" where
  "list_header n =
     ''# Smithy Documentation Files\<newline>\<newline>Total files: '' @ string_of_nat n @ ''\<newline>\<newline>''"

definition render_tree :: "nat \<Rightarrow> fileTree \<Rightarrow> string" where
  "render_tree n tree = list_header n @ concat (map (dir_section tree) (sorted_dirs tree))"

text \<open>
  \<^verbatim>\<open>handleListTool()\<close>, paired with the command it sent to the object store.
\<close>

definition handleListTool ::
  "string \<Rightarrow> list_objects_client \<Rightarrow> list_objects_command \<times> MCPToolResponse" where
  "handleListTool BUCKET_NAME s3_send =
     (let command = ListObjectsV2Command BUCKET_NAME PREFIX;
          failed = (\<lambda>error.
            \<lparr>content = [text_block (''Error listing topics: '' @ message_or_unknown error)],
             isError = Some True\<rparr>)
      in (command,
          case s3_send command of
            Inl error \<Rightarrow> failed error
          | Inr Contents \<Rightarrow>
              (let files = (case Contents of None \<Rightarrow> [] | Some fs \<Rightarrow> fs)
               in if length files = 0 then
                    \<lparr>content =
                       [text_block ''No documentation files found. The knowledge base may not be populated yet.''],
                     isError = None\<rparr>
                  else
                    (case group_files files [] of
                       Inl error \<Rightarrow> failed error
                     | Inr fileTree \<Rightarrow>
                         \<lparr>content = [text_block (render_tree (length files) fileTree)],
                          isError = None\<rparr>))))"

section \<open>index.ts: the tools registered with the server\<close>

text \<open>A tool call as the server receives it: the name of the tool and its arguments.\<close>

record 'a tool_call =
  name :: string
  arguments :: 'a

text \<open>A callback registered for a tool answers with a response or throws.\<close>

type_synonym 'a tool_callback = "'a \<Rightarrow> js_exception + MCPToolResponse"

text \<open>
  \<^verbatim>\<open>index.ts\<close> creates one \<^verbatim>\<open>McpServer\<close> and calls \<^verbatim>\<open>registerTool\<close> three times. The
  server after these calls is the list of the registered names with their callbacks, in the
  order of registration. The callbacks are written inline in \<^verbatim>\<open>index.ts\<close> and closed over
  the collaborators; they are parameters here.
\<close>

definition server ::
  "'a tool_callback \<Rightarrow> 'a tool_callback \<Rightarrow> 'a tool_callback
     \<Rightarrow> (string \<times> 'a tool_callback) list" where
  "server search_callback read_callback list_callback =
     [(''search_smithy_docs'', search_callback),
      (''read_smithy_doc'', read_callback),
      (''list_smithy_topics'', list_callback)]"

text \<open>
  Modelled from the spec: the dispatch of a tool call by \<^verbatim>\<open>McpServer\<close> (package
  \<^verbatim>\<open>@modelcontextprotocol/sdk\<close>), to which \<^verbatim>\<open>index.ts\<close> hands every request and which is
  not under \<^verbatim>\<open>src/\<close>. Section 4.1 of the spec: a tool call produces exactly one response; a
  registered name is routed to its handler, whose response is returned unchanged; an
  unknown name produces a response with \<^verbatim>\<open>isError: true\<close> and a diagnostic naming the
  unknown tool; no exception escapes, a failure is converted into a response with
  \<^verbatim>\<open>isError: true\<close>. The spec does not fix the wording of the diagnostics: what stands
  before and after the name, and the text for a thrown value, are parameters.
\<close>

definition dispatch ::
  "string \<Rightarrow> string \<Rightarrow> (js_exception \<Rightarrow> string) \<Rightarrow> (string \<times> 'a tool_callback) list
     \<Rightarrow> 'a tool_call \<Rightarrow> MCPToolResponse" where
  "dispatch before_name after_name failure_text tools call =
     (case map_of tools (name call) of
        None \<Rightarrow>
          \<lparr>content = [text_block (before_name @ name call @ after_name)],
           isError = Some True\<rparr>
      | Some callback \<Rightarrow>
          (case callback (arguments call) of
             Inr response \<Rightarrow> response
           | Inl error \<Rightarrow>
               \<lparr>content = [text_block (failure_text error)], isError = Some True\<rparr>))"

text \<open>
  Modelled from the spec: the serving process of \<^verbatim>\<open>McpServer\<close>, not under \<^verbatim>\<open>src/\<close>, as
  far as tool calls go. Sections 4.1 and 4.4 of the spec: the process answers each call in
  turn, an unknown tool is not a fatal condition, and nothing is retained from one call to
  the next.
\<close>

definition serve ::
  "string \<Rightarrow> string \<Rightarrow> (js_exception \<Rightarrow> string) \<Rightarrow> (string \<times> 'a tool_callback) list
     \<Rightarrow> 'a tool_call list \<Rightarrow> MCPToolResponse list" where
  "serve before_name after_name failure_text tools calls =
     map (dispatch before_name after_name failure_text tools) calls"

section \<open>Scenarios\<close>

text \<open>
  Collaborators and inputs of concrete scenarios, on which the theorems below are
  evaluated.
\<close>

text \<open>A retrieval service that finds nothing.\<close>

definition no_results :: "unit retrieve_client" where
  "no_results command = Inr (Some [])"

text \<open>A retrieval service that is throttled.\<close>

definition failing_retrieval :: "unit retrieve_client" where
  "failing_retrieval command = Inl (ErrorInstance ''ThrottlingException'' ''Rate exceeded'')"

text \<open>A score rendering for scenarios in which no result is rendered.\<close>

definition no_rendering :: "jsnum \<Rightarrow> string" where
  "no_rendering n = []"

text \<open>An object store that holds one document, \<^verbatim>\<open>quickstart.md\<close>, with content \<^verbatim>\<open># Hello\<close>.\<close>

definition store_quickstart :: get_object_client where
  "store_quickstart command =
     (if command = GetObjectCommand ''docs-bucket'' ''smithy-docs/quickstart.md''
      then Inr (Some ''# Hello'')
      else Inl (ErrorInstance ''NoSuchKey'' ''The specified key does not exist.''))"

text \<open>The listing of three documents, in the order of their keys and in another order.\<close>

definition abc_files :: "s3_object list" where
  "abc_files =
     [S3Object (Some ''smithy-docs/a.md''),
      S3Object (Some ''smithy-docs/b/c.md''),
      S3Object (Some ''smithy-docs/b/d.md'')]"

definition dac_files :: "s3_object list" where
  "dac_files =
     [S3Object (Some ''smithy-docs/b/d.md''),
      S3Object (Some ''smithy-docs/a.md''),
      S3Object (Some ''smithy-docs/b/c.md'')]"

definition listing_of :: "s3_object list \<Rightarrow> list_objects_client" where
  "listing_of files command =
     (if command = ListObjectsV2Command ''docs-bucket'' ''smithy-docs/''
      then Inr (Some files) else Inr None)"

text \<open>
  A retrieval service that finds two passages, the second without a source location, and
  the engine's rendering of their scores to three decimals.
\<close>

definition two_results :: "unit retrieve_client" where
  "two_results command =
     Inr (Some
       [\<lparr>content_text = Some ''A service is defined with the service shape.'',
         s3Location_uri = Some ''s3://docs-bucket/smithy-docs/guides/model.md'',
         raw_score = Some (Finite (91 / 100)),
         raw_metadata = None\<rparr>,
        \<lparr>content_text = Some ''Operations are bound to a service.'',
         s3Location_uri = None,
         raw_score = Some (Finite (77 / 100)),
         raw_metadata = None\<rparr>])"

definition two_scores :: "jsnum \<Rightarrow> string" where
  "two_scores n = (if n = Finite (91 / 100) then ''0.910'' else ''0.770'')"

text \<open>
  A call of a tool that does not exist and a call of the list tool; callbacks that answer
  with a fixed response; a wording of the diagnostic.
\<close>

definition bogus_call :: "unit tool_call" where
  "bogus_call = \<lparr>name = ''bogus_tool'', arguments = ()\<rparr>"

definition list_call :: "unit tool_call" where
  "list_call = \<lparr>name = ''list_smithy_topics'', arguments = ()\<rparr>"

definition idle_response :: MCPToolResponse where
  "idle_response = \<lparr>content = [text_block ''idle''], isError = None\<rparr>"

definition idle_tool :: "unit tool_callback" where
  "idle_tool args = Inr idle_response"

section \<open>Strings: splitting and the last segment\<close>

lemma split_not_Nil: "split sep s \<noteq> []"
  by (induction s) (auto split: list.splits)

lemma split_no_sep: "sep \<notin> set s \<Longrightarrow> split sep s = [s]"
  by (induction s) auto

lemma split_with_sep: "sep \<in> set s \<Longrightarrow> tl (split sep s) \<noteq> []"
  by (induction s) (auto simp: split_not_Nil split: list.splits)

lemma takeWhile_snoc_stop: "\<not> P c \<Longrightarrow> takeWhile P (xs @ [c]) = takeWhile P xs"
  by (induction xs) auto

text \<open>The last part of a split is what follows the last separator.\<close>

lemma last_split: "last (split sep s) = rev (takeWhile (\<lambda>c. c \<noteq> sep) (rev s))"
proof (induction s)
  case Nil
  show ?case by simp
next
  case (Cons c cs)
  show ?case
  proof (cases "c = sep")
    case True
    then show ?thesis
      using Cons.IH by (simp add: split_not_Nil takeWhile_snoc_stop)
  next
    case False
    show ?thesis
    proof (cases "sep \<in> set cs")
      case True
      then obtain p q ps where sp: "split sep cs = p # q # ps"
        using split_with_sep [of sep cs] split_not_Nil [of sep cs]
        by (cases "split sep cs") (auto simp: neq_Nil_conv)
      have "takeWhile (\<lambda>c. c \<noteq> sep) (rev cs @ [c]) = takeWhile (\<lambda>c. c \<noteq> sep) (rev cs)"
        using True by (intro takeWhile_append1 [of sep]) auto
      then show ?thesis
        using Cons.IH False sp by simp
    next
      case nosep: False
      then have "takeWhile (\<lambda>c. c \<noteq> sep) (rev (c # cs)) = rev (c # cs)"
        using False by auto
      then have a: "rev (takeWhile (\<lambda>c. c \<noteq> sep) (rev (c # cs))) = c # cs"
        by (simp only: rev_rev_ident)
      have b: "split sep (c # cs) = [c # cs]"
        using False nosep by (simp add: split_no_sep)
      show ?thesis unfolding a b by simp
    qed
  qed
qed

lemma pop_split: "pop (split sep s) = Some (last (split sep s))"
  using split_not_Nil [of sep s] by (cases "split sep s") auto

section \<open>The file tree of the list handler\<close>

lemma files_in_tree_push:
  "files_in (tree_push dir path tree) d =
     (if d = dir then files_in tree dir @ [path] else files_in tree d)"
  by (induction tree) (auto simp: files_in_def)

lemma map_fst_tree_push:
  "map fst (tree_push dir path tree) =
     (if dir \<in> set (map fst tree) then map fst tree else map fst tree @ [dir])"
  by (induction dir path tree rule: tree_push.induct) auto

lemma keys_tree_push: "set (map fst (tree_push dir path tree)) = insert dir (set (map fst tree))"
  unfolding map_fst_tree_push by (simp add: insert_absorb)

lemma distinct_tree_push:
  "distinct (map fst tree) \<Longrightarrow> distinct (map fst (tree_push dir path tree))"
  unfolding map_fst_tree_push by simp

lemma keyed_paths_Nil: "keyed_paths [] = []"
  by (simp add: keyed_paths_def)

lemma keyed_paths_Cons:
  "keyed_paths (f # fs) =
     (if str_or (Key f) [] = [] then keyed_paths fs
      else relative_path (str_or (Key f) []) # keyed_paths fs)"
  by (simp add: keyed_paths_def)

text \<open>One step of the grouping loop that does not throw.\<close>

lemma group_files_step:
  assumes "group_files (f # fs) tree = Inr tree'" and "str_or (Key f) [] \<noteq> []"
  shows "group_files fs
           (tree_push (dir_of (relative_path (str_or (Key f) [])))
              (relative_path (str_or (Key f) [])) tree) = Inr tree'"
  using assms by (simp add: Let_def split: if_splits)

lemma group_files_keys:
  "group_files files tree = Inr tree' \<Longrightarrow>
     set (map fst tree') = set (map fst tree) \<union> dir_of ` set (keyed_paths files)"
proof (induction files arbitrary: tree)
  case Nil
  then show ?case by (simp add: keyed_paths_Nil)
next
  case (Cons f fs)
  show ?case
  proof (cases "str_or (Key f) [] = []")
    case True
    with Cons show ?thesis by (simp add: keyed_paths_Cons)
  next
    case False
    show ?thesis
      unfolding Cons.IH [OF group_files_step [OF Cons.prems False]] keys_tree_push
      using False by (simp add: keyed_paths_Cons)
  qed
qed

lemma group_files_distinct:
  "group_files files tree = Inr tree' \<Longrightarrow> distinct (map fst tree) \<Longrightarrow> distinct (map fst tree')"
proof (induction files arbitrary: tree)
  case Nil
  then show ?case by simp
next
  case (Cons f fs)
  show ?case
  proof (cases "str_or (Key f) [] = []")
    case True
    with Cons show ?thesis by simp
  next
    case False
    show ?thesis
      using Cons.IH [OF group_files_step [OF Cons.prems(1) False]] Cons.prems(2)
      by (simp add: distinct_tree_push)
  qed
qed

lemma group_files_order:
  "group_files files tree = Inr tree' \<Longrightarrow>
     files_in tree' d = files_in tree d @ filter (\<lambda>p. dir_of p = d) (keyed_paths files)"
proof (induction files arbitrary: tree)
  case Nil
  then show ?case by (simp add: keyed_paths_Nil)
next
  case (Cons f fs)
  show ?case
  proof (cases "str_or (Key f) [] = []")
    case True
    with Cons show ?thesis by (simp add: keyed_paths_Cons)
  next
    case False
    show ?thesis
      using Cons.IH [OF group_files_step [OF Cons.prems False]] False
      by (simp add: keyed_paths_Cons files_in_tree_push)
  qed
qed

text \<open>The loop throws exactly when some directory name is inherited from the prototype.\<close>

lemma group_files_returns:
  "(\<exists>tree'. group_files files tree = Inr tree') \<longleftrightarrow>
     (\<forall>p \<in> set (keyed_paths files). dir_of p \<notin> set object_prototype_keys)"
proof (induction files arbitrary: tree)
  case Nil
  show ?case by (simp add: keyed_paths_Nil)
next
  case (Cons f fs)
  show ?case
    using Cons.IH by (simp add: keyed_paths_Cons Let_def)
qed

section \<open>The search handler: the limit sent to the retrieval service\<close>

text \<open>
  Claim C1. Whatever the retrieval service answers, a call of the search handler with
  \<^verbatim>\<open>max_results\<close> above 10 sends the limit 10, and a call without \<^verbatim>\<open>max_results\<close>
  sends the limit 5. The limit is the \<^verbatim>\<open>numberOfResults\<close> of the one command sent.
\<close>

theorem search_limit_clamped:
  "(\<forall>n. max_results args = Some n \<and> js_less (Finite 10) n \<longrightarrow>
        numberOfResults (fst (handleSearchTool kb client_send toFixed3 args)) = Finite 10)
   \<and> (max_results args = None \<longrightarrow>
        numberOfResults (fst (handleSearchTool kb client_send toFixed3 args)) = Finite 5)"
proof (intro conjI allI impI)
  fix n
  assume "max_results args = Some n \<and> js_less (Finite 10) n"
  then show "numberOfResults (fst (handleSearchTool kb client_send toFixed3 args)) = Finite 10"
    by (cases n) (simp_all add: handleSearchTool_def searchKnowledgeBase_def Let_def)
next
  assume "max_results args = None"
  then show "numberOfResults (fst (handleSearchTool kb client_send toFixed3 args)) = Finite 5"
    by (simp add: handleSearchTool_def searchKnowledgeBase_def Let_def)
qed

theorem search_limit_clamped_witness:
  "js_less (Finite 10) (Finite 15)
   \<and> numberOfResults (fst (handleSearchTool ''KB1'' no_results no_rendering
         \<lparr>query = ''traits'', max_results = Some (Finite 15)\<rparr>)) = Finite 10
   \<and> numberOfResults (fst (handleSearchTool ''KB1'' no_results no_rendering
         \<lparr>query = ''traits'', max_results = None\<rparr>)) = Finite 5"
  using search_limit_clamped [of "\<lparr>query = ''traits'', max_results = Some (Finite 15)\<rparr>"
          "''KB1''" no_results no_rendering]
        search_limit_clamped [of "\<lparr>query = ''traits'', max_results = None\<rparr>"
          "''KB1''" no_results no_rendering]
  by simp

text \<open>
  Claim C8 says that a supplied \<^verbatim>\<open>max_results\<close> below 1 is replaced by the default 5.
  The handler replaces only falsy values: \<^verbatim>\<open>-3\<close> is below 1 and is sent as it is.
\<close>

theorem search_limit_below_one_counterexample:
  "js_less (Finite (- 3)) (Finite 1)
   \<and> numberOfResults (fst (handleSearchTool ''KB1'' no_results no_rendering
         \<lparr>query = ''traits'', max_results = Some (Finite (- 3))\<rparr>)) = Finite (- 3)
   \<and> numberOfResults (fst (handleSearchTool ''KB1'' no_results no_rendering
         \<lparr>query = ''traits'', max_results = Some (Finite (- 3))\<rparr>)) \<noteq> Finite 5"
  by (simp add: handleSearchTool_def searchKnowledgeBase_def Let_def)

text \<open>
  Claim C8, amended. Of the supplied values below 1 only \<^verbatim>\<open>0\<close> is replaced by the default
  5; every other one is sent unchanged, so the handler enforces no lower bound.
\<close>

theorem search_limit_below_one:
  assumes "max_results args = Some n" and "js_less n (Finite 1)"
  shows "numberOfResults (fst (handleSearchTool kb client_send toFixed3 args)) =
           (if n = Finite 0 then Finite 5 else n)"
  using assms
  by (cases n) (simp_all add: handleSearchTool_def searchKnowledgeBase_def Let_def)

theorem search_limit_below_one_witness:
  "js_less (Finite (1 / 2)) (Finite 1)
   \<and> numberOfResults (fst (handleSearchTool ''KB1'' no_results no_rendering
         \<lparr>query = ''traits'', max_results = Some (Finite (1 / 2))\<rparr>)) = Finite (1 / 2)
   \<and> js_less (Finite 0) (Finite 1)
   \<and> numberOfResults (fst (handleSearchTool ''KB1'' no_results no_rendering
         \<lparr>query = ''traits'', max_results = Some (Finite 0)\<rparr>)) = Finite 5"
  using search_limit_below_one [of "\<lparr>query = ''traits'', max_results = Some (Finite (1 / 2))\<rparr>"
          "Finite (1 / 2)" "''KB1''" no_results no_rendering]
        search_limit_below_one [of "\<lparr>query = ''traits'', max_results = Some (Finite 0)\<rparr>"
          "Finite 0" "''KB1''" no_results no_rendering]
  by simp

section \<open>The read handler: the storage key\<close>

text \<open>
  Claim C3. Reading \<^verbatim>\<open>p\<close> and reading \<^verbatim>\<open>"/" + p\<close> send the same command, whose key is the
  namespace \<^verbatim>\<open>smithy-docs/\<close> followed by \<^verbatim>\<open>p\<close> without its leading slashes; what follows the
  namespace never begins with a slash.
\<close>

theorem read_key_normalised:
  "fst (handleReadTool bucket s3_send \<lparr>file_path = CHR ''/'' # p\<rparr>) =
     fst (handleReadTool bucket s3_send \<lparr>file_path = p\<rparr>)
   \<and> fst (handleReadTool bucket s3_send \<lparr>file_path = p\<rparr>) =
       GetObjectCommand bucket (''smithy-docs/'' @ cleanPath p)
   \<and> (\<exists>n. p = replicate n (CHR ''/'') @ cleanPath p)
   \<and> \<not> prefix ''/'' (cleanPath p)"
proof (intro conjI)
  show "fst (handleReadTool bucket s3_send \<lparr>file_path = CHR ''/'' # p\<rparr>) =
          fst (handleReadTool bucket s3_send \<lparr>file_path = p\<rparr>)"
    by (simp add: handleReadTool_def storage_key_def cleanPath_def Let_def)
  show "fst (handleReadTool bucket s3_send \<lparr>file_path = p\<rparr>) =
          GetObjectCommand bucket (''smithy-docs/'' @ cleanPath p)"
    by (simp add: handleReadTool_def storage_key_def Let_def)
  have "p = takeWhile (\<lambda>c. c = CHR ''/'') p @ cleanPath p"
    by (simp add: cleanPath_def)
  moreover have "takeWhile (\<lambda>c. c = CHR ''/'') p
                   = replicate (length (takeWhile (\<lambda>c. c = CHR ''/'') p)) (CHR ''/'')"
    by (induction p) auto
  ultimately show "\<exists>n. p = replicate n (CHR ''/'') @ cleanPath p"
    by metis
  show "\<not> prefix ''/'' (cleanPath p)"
    unfolding cleanPath_def by (induction p) auto
qed

section \<open>Empty results and missing documents\<close>

text \<open>
  Claim C4. When the retrieval service answers the search handler's command with no
  results, the response has no \<^verbatim>\<open>isError\<close>; when the object store answers the read
  handler's command by throwing \<^verbatim>\<open>NoSuchKey\<close>, the response has \<^verbatim>\<open>isError: true\<close>.
\<close>

theorem empty_is_success_missing_is_error:
  "(\<forall>rs. client_send (fst (handleSearchTool kb client_send toFixed3 sargs)) = Inr rs
          \<and> (rs = None \<or> rs = Some []) \<longrightarrow>
        isError (snd (handleSearchTool kb client_send toFixed3 sargs)) = None)
   \<and> (\<forall>e. s3_send (fst (handleReadTool bucket s3_send rargs)) = Inl e
          \<and> error_name e = Some ''NoSuchKey'' \<longrightarrow>
        isError (snd (handleReadTool bucket s3_send rargs)) = Some True)"
  by (auto simp: handleSearchTool_def searchKnowledgeBase_def handleReadTool_def Let_def)

theorem empty_is_success_missing_is_error_witness:
  "no_results (fst (handleSearchTool ''KB1'' no_results no_rendering
       \<lparr>query = ''traits'', max_results = None\<rparr>)) = Inr (Some [])
   \<and> isError (snd (handleSearchTool ''KB1'' no_results no_rendering
       \<lparr>query = ''traits'', max_results = None\<rparr>)) = None
   \<and> store_quickstart (fst (handleReadTool ''docs-bucket'' store_quickstart
       \<lparr>file_path = ''missing.md''\<rparr>))
       = Inl (ErrorInstance ''NoSuchKey'' ''The specified key does not exist.'')
   \<and> isError (snd (handleReadTool ''docs-bucket'' store_quickstart
       \<lparr>file_path = ''missing.md''\<rparr>)) = Some True"
  using empty_is_success_missing_is_error [of no_results "''KB1''" no_rendering
          "\<lparr>query = ''traits'', max_results = None\<rparr>" store_quickstart "''docs-bucket''"
          "\<lparr>file_path = ''missing.md''\<rparr>"]
  by (simp add: no_results_def store_quickstart_def handleReadTool_def storage_key_def
        cleanPath_def Let_def)

section \<open>The read handler: a document that is found\<close>

text \<open>
  Claim C6. When the object store answers the read handler's command with the content
  \<^verbatim>\<open>c\<close>, and \<^verbatim>\<open>c\<close> is not empty (an empty content is reported as an error instead), the
  response is a success whose one text is the heading \<^verbatim>\<open># \<close> and the requested path, a
  blank line, and \<^verbatim>\<open>c\<close> as it is. The witness is the reading of \<^verbatim>\<open>quickstart.md\<close> with
  content \<^verbatim>\<open># Hello\<close>.
\<close>

theorem read_success_text:
  assumes "s3_send (fst (handleReadTool bucket s3_send args)) = Inr (Some c)" and "c \<noteq> []"
  shows "snd (handleReadTool bucket s3_send args) =
           \<lparr>content = [\<lparr>type = ''text'', text' = ''# '' @ file_path args @ ''\<newline>\<newline>'' @ c\<rparr>],
            isError = None\<rparr>"
  using assms by (simp add: handleReadTool_def Let_def text_block_def)

theorem read_success_text_witness:
  "store_quickstart (fst (handleReadTool ''docs-bucket'' store_quickstart
       \<lparr>file_path = ''quickstart.md''\<rparr>)) = Inr (Some ''# Hello'')
   \<and> ''# Hello'' \<noteq> []
   \<and> snd (handleReadTool ''docs-bucket'' store_quickstart \<lparr>file_path = ''quickstart.md''\<rparr>) =
       \<lparr>content = [\<lparr>type = ''text'', text' = ''# quickstart.md\<newline>\<newline># Hello''\<rparr>], isError = None\<rparr>"
proof -
  have sent: "store_quickstart (fst (handleReadTool ''docs-bucket'' store_quickstart
       \<lparr>file_path = ''quickstart.md''\<rparr>)) = Inr (Some ''# Hello'')"
    by (simp add: store_quickstart_def handleReadTool_def storage_key_def cleanPath_def Let_def)
  have nonempty: "''# Hello'' \<noteq> []" by simp
  show ?thesis
    using sent nonempty
      read_success_text [of store_quickstart "''docs-bucket''"
        "\<lparr>file_path = ''quickstart.md''\<rparr>" "''# Hello''"]
    by simp
qed

section \<open>The search handler: a failing retrieval service\<close>

text \<open>
  Claim C7. When the retrieval service answers the search handler's command by throwing,
  the handler returns (it has no other outcome) the response with \<^verbatim>\<open>isError: true\<close> whose
  one text is \<^verbatim>\<open>Error searching documentation: \<close> followed by the message of the thrown
  error, or by \<^verbatim>\<open>Unknown error\<close> when the thrown value is not an \<^verbatim>\<open>Error\<close>.
\<close>

theorem search_failure_response:
  assumes "client_send (fst (handleSearchTool kb client_send toFixed3 args)) = Inl e"
  shows "snd (handleSearchTool kb client_send toFixed3 args) =
           \<lparr>content =
              [\<lparr>type = ''text'',
                text' = ''Error searching documentation: ''
                  @ (case e of ErrorInstance n m \<Rightarrow> m | OtherValue n \<Rightarrow> ''Unknown error'')\<rparr>],
            isError = Some True\<rparr>"
  using assms
  by (cases e)
    (simp_all add: handleSearchTool_def searchKnowledgeBase_def Let_def text_block_def)

theorem search_failure_response_witness:
  "failing_retrieval (fst (handleSearchTool ''KB1'' failing_retrieval no_rendering
       \<lparr>query = ''traits'', max_results = None\<rparr>))
     = Inl (ErrorInstance ''ThrottlingException'' ''Rate exceeded'')
   \<and> snd (handleSearchTool ''KB1'' failing_retrieval no_rendering
       \<lparr>query = ''traits'', max_results = None\<rparr>) =
       \<lparr>content = [\<lparr>type = ''text'', text' = ''Error searching documentation: Rate exceeded''\<rparr>],
        isError = Some True\<rparr>"
proof -
  have sent: "failing_retrieval (fst (handleSearchTool ''KB1'' failing_retrieval no_rendering
       \<lparr>query = ''traits'', max_results = None\<rparr>))
     = Inl (ErrorInstance ''ThrottlingException'' ''Rate exceeded'')"
    by (simp add: failing_retrieval_def)
  show ?thesis
    using sent
      search_failure_response [of failing_retrieval "''KB1''" no_rendering
        "\<lparr>query = ''traits'', max_results = None\<rparr>"
        "ErrorInstance ''ThrottlingException'' ''Rate exceeded''"]
    by simp
qed

section \<open>The search report\<close>

text \<open>The loop over the results appends one section per result, numbered from the index.\<close>

lemma append_results_concat:
  "append_results toFixed3 index results response =
     response @ concat (map (\<lambda>(result, i). result_section toFixed3 result i)
                          (zip results [index ..< index + length results]))"
proof (induction results arbitrary: index response)
  case Nil
  show ?case by simp
next
  case (Cons r rs)
  have "[index ..< index + length (r # rs)] = index # [index + 1 ..< index + 1 + length rs]"
    by (subst upt_rec) simp
  then show ?case
    using Cons.IH [of "index + 1"] by simp
qed

text \<open>The file name of a location is what follows its last slash, if that is not empty.\<close>

lemma fileName_last_segment:
  "fileName uri =
     (let segment = rev (takeWhile (\<lambda>c. c \<noteq> CHR ''/'') (rev uri))
      in if segment = [] then ''unknown'' else segment)"
  unfolding fileName_def pop_split last_split Let_def by simp

text \<open>
  Claim C9. When the retrieval service answers the search handler's command with results,
  the report of the handler is the header followed by one section per result, in the order
  received, and the source label of a section, shown between backquotes after
  \<^verbatim>\<open>**Source:**\<close>, is the part of the result's source location after its last slash, and
  the literal \<^verbatim>\<open>unknown\<close> when that part is empty, as it is for the empty location.
\<close>

theorem report_source_labels:
  assumes "client_send (fst (handleSearchTool kb client_send toFixed3 args)) = Inr (Some raw)"
    and "raw \<noteq> []"
  shows "snd (handleSearchTool kb client_send toFixed3 args) =
           \<lparr>content =
              [\<lparr>type = ''text'',
                text' =
                  ''# Search Results for: \"'' @ query args @ ''\"\<newline>\<newline>Found ''
                    @ string_of_nat (length raw) @ '' relevant section(s):\<newline>\<newline>''
                    @ concat (map (\<lambda>(result, index).
                        ''## Result '' @ string_of_nat (index + 1)
                          @ '' (Score: '' @ toFixed3 (score result) @ '')\<newline>**Source:** `''
                          @ (let segment =
                                   rev (takeWhile (\<lambda>c. c \<noteq> CHR ''/'')
                                          (rev (s3Uri (location result))))
                             in if segment = [] then ''unknown'' else segment)
                          @ ''`\<newline>\<newline>'' @ content' result @ ''\<newline>\<newline>---\<newline>\<newline>'')
                      (zip (map to_SearchResult raw) [0 ..< length raw]))\<rparr>],
            isError = None\<rparr>"
proof -
  let ?results = "map to_SearchResult raw"
  have sent: "fst (handleSearchTool kb client_send toFixed3 args) =
      \<lparr>knowledgeBaseId = kb, retrievalQuery_text = query args,
       numberOfResults = Math_min (num_or (max_results args) (Finite 5)) (Finite 10)\<rparr>"
    by (simp add: handleSearchTool_def searchKnowledgeBase_def Let_def)
  have answered: "client_send
      \<lparr>knowledgeBaseId = kb, retrievalQuery_text = query args,
       numberOfResults = Math_min (num_or (max_results args) (Finite 5)) (Finite 10)\<rparr>
        = Inr (Some raw)"
    using assms(1) unfolding sent .
  have report: "snd (handleSearchTool kb client_send toFixed3 args) =
      \<lparr>content =
         [\<lparr>type = ''text'',
           text' = append_results toFixed3 0 ?results
             (''# Search Results for: \"'' @ query args @ ''\"\<newline>\<newline>Found ''
                @ string_of_nat (length ?results) @ '' relevant section(s):\<newline>\<newline>'')\<rparr>],
       isError = None\<rparr>"
    using answered assms(2)
    by (simp add: handleSearchTool_def searchKnowledgeBase_def Let_def text_block_def)
  have sections: "(\<lambda>(result, index). result_section toFixed3 result index) =
      (\<lambda>(result :: 'a SearchResult, index).
         ''## Result '' @ string_of_nat (index + 1)
           @ '' (Score: '' @ toFixed3 (score result) @ '')\<newline>**Source:** `''
           @ (let segment =
                    rev (takeWhile (\<lambda>c. c \<noteq> CHR ''/'') (rev (s3Uri (location result))))
              in if segment = [] then ''unknown'' else segment)
           @ ''`\<newline>\<newline>'' @ content' result @ ''\<newline>\<newline>---\<newline>\<newline>'')"
    by (simp add: result_section_def fileName_last_segment fun_eq_iff)
  show ?thesis
    unfolding report append_results_concat sections by simp
qed

theorem report_source_labels_witness:
  "two_results (fst (handleSearchTool ''KB1'' two_results two_scores
       \<lparr>query = ''service'', max_results = Some (Finite 2)\<rparr>))
     = Inr (Some
         [\<lparr>content_text = Some ''A service is defined with the service shape.'',
           s3Location_uri = Some ''s3://docs-bucket/smithy-docs/guides/model.md'',
           raw_score = Some (Finite (91 / 100)),
           raw_metadata = None\<rparr>,
          \<lparr>content_text = Some ''Operations are bound to a service.'',
           s3Location_uri = None,
           raw_score = Some (Finite (77 / 100)),
           raw_metadata = None\<rparr>])
   \<and> snd (handleSearchTool ''KB1'' two_results two_scores
       \<lparr>query = ''service'', max_results = Some (Finite 2)\<rparr>) =
       \<lparr>content =
          [\<lparr>type = ''text'',
            text' = ''# Search Results for: \"service\"\<newline>\<newline>Found 2 relevant section(s):\<newline>\<newline>## Result 1 (Score: 0.910)\<newline>**Source:** `model.md`\<newline>\<newline>A service is defined with the service shape.\<newline>\<newline>---\<newline>\<newline>## Result 2 (Score: 0.770)\<newline>**Source:** `unknown`\<newline>\<newline>Operations are bound to a service.\<newline>\<newline>---\<newline>\<newline>''\<rparr>],
        isError = None\<rparr>"
proof -
  let ?args = "\<lparr>query = ''service'', max_results = Some (Finite 2)\<rparr>"
  let ?raw = "[\<lparr>content_text = Some ''A service is defined with the service shape.'',
           s3Location_uri = Some ''s3://docs-bucket/smithy-docs/guides/model.md'',
           raw_score = Some (Finite (91 / 100)),
           raw_metadata = None :: unit option\<rparr>,
          \<lparr>content_text = Some ''Operations are bound to a service.'',
           s3Location_uri = None,
           raw_score = Some (Finite (77 / 100)),
           raw_metadata = None\<rparr>]"
  have sent: "two_results (fst (handleSearchTool ''KB1'' two_results two_scores ?args))
                = Inr (Some ?raw)"
    by (simp add: two_results_def)
  have nonempty: "?raw \<noteq> []" by simp
  have shown: "''# Search Results for: \"'' @ query ?args @ ''\"\<newline>\<newline>Found ''
        @ string_of_nat (length ?raw) @ '' relevant section(s):\<newline>\<newline>''
        @ concat (map (\<lambda>(result, index).
            ''## Result '' @ string_of_nat (index + 1)
              @ '' (Score: '' @ two_scores (score result) @ '')\<newline>**Source:** `''
              @ (let segment =
                       rev (takeWhile (\<lambda>c. c \<noteq> CHR ''/'') (rev (s3Uri (location result))))
                 in if segment = [] then ''unknown'' else segment)
              @ ''`\<newline>\<newline>'' @ content' result @ ''\<newline>\<newline>---\<newline>\<newline>'')
          (zip (map to_SearchResult ?raw) [0 ..< length ?raw]))
      = ''# Search Results for: \"service\"\<newline>\<newline>Found 2 relevant section(s):\<newline>\<newline>## Result 1 (Score: 0.910)\<newline>**Source:** `model.md`\<newline>\<newline>A service is defined with the service shape.\<newline>\<newline>---\<newline>\<newline>## Result 2 (Score: 0.770)\<newline>**Source:** `unknown`\<newline>\<newline>Operations are bound to a service.\<newline>\<newline>---\<newline>\<newline>''"
    by code_simp
  have applied: "snd (handleSearchTool ''KB1'' two_results two_scores ?args) =
      \<lparr>content =
         [\<lparr>type = ''text'',
           text' = ''# Search Results for: \"'' @ query ?args @ ''\"\<newline>\<newline>Found ''
             @ string_of_nat (length ?raw) @ '' relevant section(s):\<newline>\<newline>''
             @ concat (map (\<lambda>(result, index).
                 ''## Result '' @ string_of_nat (index + 1)
                   @ '' (Score: '' @ two_scores (score result) @ '')\<newline>**Source:** `''
                   @ (let segment =
                            rev (takeWhile (\<lambda>c. c \<noteq> CHR ''/'')
                                   (rev (s3Uri (location result))))
                      in if segment = [] then ''unknown'' else segment)
                   @ ''`\<newline>\<newline>'' @ content' result @ ''\<newline>\<newline>---\<newline>\<newline>'')
               (zip (map to_SearchResult ?raw) [0 ..< length ?raw]))\<rparr>],
       isError = None\<rparr>"
    using sent nonempty
    by (rule report_source_labels [of two_results "''KB1''" two_scores ?args ?raw])
  show ?thesis
    using sent applied unfolding shown by simp
qed

section \<open>The shape of every response\<close>

text \<open>
  Claim C10. Whatever the input and whatever the collaborator answers or throws, each of
  the three handlers returns a response whose content is exactly one block of type
  \<^verbatim>\<open>text\<close>.
\<close>

theorem one_text_block:
  "(\<exists>t. content (snd (handleSearchTool kb client_send toFixed3 sargs))
            = [\<lparr>type = ''text'', text' = t\<rparr>])
   \<and> (\<exists>t. content (snd (handleReadTool bucket get_send rargs))
            = [\<lparr>type = ''text'', text' = t\<rparr>])
   \<and> (\<exists>t. content (snd (handleListTool bucket list_send))
            = [\<lparr>type = ''text'', text' = t\<rparr>])"
proof (intro conjI)
  show "\<exists>t. content (snd (handleSearchTool kb client_send toFixed3 sargs))
              = [\<lparr>type = ''text'', text' = t\<rparr>]"
    by (simp add: handleSearchTool_def searchKnowledgeBase_def Let_def text_block_def
          split: sum.splits)
  show "\<exists>t. content (snd (handleReadTool bucket get_send rargs))
              = [\<lparr>type = ''text'', text' = t\<rparr>]"
    by (simp add: handleReadTool_def Let_def text_block_def split: sum.splits)
  show "\<exists>t. content (snd (handleListTool bucket list_send))
              = [\<lparr>type = ''text'', text' = t\<rparr>]"
    by (simp add: handleListTool_def Let_def text_block_def split: sum.splits option.splits)
qed

section \<open>The list handler: grouping and rendering\<close>

lemma list_render:
  assumes "list_send (ListObjectsV2Command bucket PREFIX) = Inr (Some files)"
    and "files \<noteq> []" and "group_files files [] = Inr tree"
  shows "snd (handleListTool bucket list_send) =
           \<lparr>content =
              [\<lparr>type = ''text'',
                text' = list_header (length files)
                          @ concat (map (dir_section tree) (sorted_dirs tree))\<rparr>],
            isError = None\<rparr>"
  using assms by (simp add: handleListTool_def Let_def text_block_def render_tree_def)

lemma sorted_dirs_props:
  assumes "group_files files [] = Inr tree"
  shows "sorted (sorted_dirs tree) \<and> distinct (sorted_dirs tree)
    \<and> set (sorted_dirs tree) = dir_of ` set (keyed_paths files)
    \<and> (\<forall>d. files_in tree d = filter (\<lambda>p. dir_of p = d) (keyed_paths files))"
proof (intro conjI allI)
  show "sorted (sorted_dirs tree)" by (simp add: sorted_dirs_def)
  show "distinct (sorted_dirs tree)"
    using group_files_distinct [OF assms] by (simp add: sorted_dirs_def)
  show "set (sorted_dirs tree) = dir_of ` set (keyed_paths files)"
    using group_files_keys [OF assms] by (simp add: sorted_dirs_def)
  show "files_in tree d = filter (\<lambda>p. dir_of p = d) (keyed_paths files)" for d
    using group_files_order [OF assms, of d] by (simp add: files_in_def)
qed

text \<open>
  Claim C5. For the listing of \<^verbatim>\<open>smithy-docs/a.md\<close>, \<^verbatim>\<open>smithy-docs/b/c.md\<close> and
  \<^verbatim>\<open>smithy-docs/b/d.md\<close> the handler puts \<^verbatim>\<open>a.md\<close> in the group \<^verbatim>\<open>Root\<close> and the two others
  in the group \<^verbatim>\<open>b\<close>, and its text reports 3 files, then \<^verbatim>\<open>Root\<close>, then \<^verbatim>\<open>b\<close>. For every
  listing on which the grouping loop returns, the groups rendered are the directories of
  the listed paths, each once, in sorted order, and the paths of a group are the listed
  paths of that directory in the order of the listing.
\<close>

theorem list_grouping:
  "group_files abc_files [] = Inr [(''Root'', [''a.md'']), (''b'', [''b/c.md'', ''b/d.md''])]
   \<and> snd (handleListTool ''docs-bucket'' (listing_of abc_files)) =
       \<lparr>content =
          [\<lparr>type = ''text'',
            text' = ''# Smithy Documentation Files\<newline>\<newline>Total files: 3\<newline>\<newline>## Root\<newline>\<newline>- `a.md`\<newline>\<newline>## b\<newline>\<newline>- `b/c.md`\<newline>- `b/d.md`\<newline>\<newline>''\<rparr>],
        isError = None\<rparr>
   \<and> (\<forall>files tree. group_files files [] = Inr tree \<longrightarrow>
          sorted (sorted_dirs tree) \<and> distinct (sorted_dirs tree)
          \<and> set (sorted_dirs tree) = dir_of ` set (keyed_paths files)
          \<and> (\<forall>d. files_in tree d = filter (\<lambda>p. dir_of p = d) (keyed_paths files)))
   \<and> (\<forall>list_send bucket files tree.
          list_send (ListObjectsV2Command bucket PREFIX) = Inr (Some files)
          \<and> files \<noteq> [] \<and> group_files files [] = Inr tree \<longrightarrow>
          snd (handleListTool bucket list_send) =
            \<lparr>content =
               [\<lparr>type = ''text'',
                 text' = list_header (length files)
                           @ concat (map (dir_section tree) (sorted_dirs tree))\<rparr>],
             isError = None\<rparr>)"
proof (intro conjI allI impI)
  show "group_files abc_files [] = Inr [(''Root'', [''a.md'']), (''b'', [''b/c.md'', ''b/d.md''])]"
    by code_simp
  show "snd (handleListTool ''docs-bucket'' (listing_of abc_files)) =
       \<lparr>content =
          [\<lparr>type = ''text'',
            text' = ''# Smithy Documentation Files\<newline>\<newline>Total files: 3\<newline>\<newline>## Root\<newline>\<newline>- `a.md`\<newline>\<newline>## b\<newline>\<newline>- `b/c.md`\<newline>- `b/d.md`\<newline>\<newline>''\<rparr>],
        isError = None\<rparr>"
    by code_simp
next
  fix files tree
  assume g: "group_files files [] = Inr tree"
  note props = sorted_dirs_props [OF g]
  show "sorted (sorted_dirs tree)" using props by blast
  show "distinct (sorted_dirs tree)" using props by blast
  show "set (sorted_dirs tree) = dir_of ` set (keyed_paths files)" using props by blast
  show "files_in tree d = filter (\<lambda>p. dir_of p = d) (keyed_paths files)" for d
    using props by blast
next
  fix list_send :: list_objects_client and bucket files tree
  assume "list_send (ListObjectsV2Command bucket PREFIX) = Inr (Some files)
          \<and> files \<noteq> [] \<and> group_files files [] = Inr tree"
  then show "snd (handleListTool bucket list_send) =
            \<lparr>content =
               [\<lparr>type = ''text'',
                 text' = list_header (length files)
                           @ concat (map (dir_section tree) (sorted_dirs tree))\<rparr>],
             isError = None\<rparr>"
    using list_render by blast
qed

theorem list_grouping_witness:
  "group_files dac_files [] = Inr [(''b'', [''b/d.md'', ''b/c.md'']), (''Root'', [''a.md''])]
   \<and> listing_of dac_files (ListObjectsV2Command ''docs-bucket'' PREFIX) = Inr (Some dac_files)
   \<and> dac_files \<noteq> []
   \<and> sorted_dirs [(''b'', [''b/d.md'', ''b/c.md'']), (''Root'', [''a.md''])] = [''Root'', ''b'']
   \<and> sorted [''Root'', ''b'']
   \<and> files_in [(''b'', [''b/d.md'', ''b/c.md'']), (''Root'', [''a.md''])] ''b''
        = filter (\<lambda>p. dir_of p = ''b'') (keyed_paths dac_files)
   \<and> filter (\<lambda>p. dir_of p = ''b'') (keyed_paths dac_files) = [''b/d.md'', ''b/c.md'']
   \<and> snd (handleListTool ''docs-bucket'' (listing_of dac_files)) =
       \<lparr>content =
          [\<lparr>type = ''text'',
            text' = ''# Smithy Documentation Files\<newline>\<newline>Total files: 3\<newline>\<newline>## Root\<newline>\<newline>- `a.md`\<newline>\<newline>## b\<newline>\<newline>- `b/d.md`\<newline>- `b/c.md`\<newline>\<newline>''\<rparr>],
        isError = None\<rparr>"
proof -
  let ?tree = "[(''b'', [''b/d.md'', ''b/c.md'']), (''Root'', [''a.md''])]"
  have grouped: "group_files dac_files [] = Inr ?tree"
    by code_simp
  have listed: "listing_of dac_files (ListObjectsV2Command ''docs-bucket'' PREFIX) = Inr (Some dac_files)"
    by code_simp
  have nonempty: "dac_files \<noteq> []"
    by (simp add: dac_files_def)
  have dirs: "sorted_dirs ?tree = [''Root'', ''b'']"
    by code_simp
  have kept: "filter (\<lambda>p. dir_of p = ''b'') (keyed_paths dac_files) = [''b/d.md'', ''b/c.md'']"
    by code_simp
  have shown: "list_header (length dac_files) @ concat (map (dir_section ?tree) [''Root'', ''b''])
     = ''# Smithy Documentation Files\<newline>\<newline>Total files: 3\<newline>\<newline>## Root\<newline>\<newline>- `a.md`\<newline>\<newline>## b\<newline>\<newline>- `b/d.md`\<newline>- `b/c.md`\<newline>\<newline>''"
    by code_simp
  have general: "sorted (sorted_dirs ?tree)
      \<and> files_in ?tree ''b'' = filter (\<lambda>p. dir_of p = ''b'') (keyed_paths dac_files)"
    using list_grouping grouped by blast
  have rendered: "snd (handleListTool ''docs-bucket'' (listing_of dac_files)) =
      \<lparr>content =
         [\<lparr>type = ''text'',
           text' = list_header (length dac_files)
                     @ concat (map (dir_section ?tree) (sorted_dirs ?tree))\<rparr>],
       isError = None\<rparr>"
    using list_grouping grouped listed nonempty by blast
  show ?thesis
    using grouped listed nonempty dirs kept general rendered shown
    by (simp only: simp_thms)
qed

section \<open>The server: a tool that does not exist\<close>

text \<open>
  Claim C2. A call whose name is none of the three names registered by \<^verbatim>\<open>index.ts\<close> is
  answered with a response with \<^verbatim>\<open>isError: true\<close> whose one text contains the name of the
  unknown tool; it is answered like any other call, so the calls served before it and after
  it get the responses they get without it.
\<close>

theorem unknown_tool_is_error:
  assumes "name call \<noteq> ''search_smithy_docs''" and "name call \<noteq> ''read_smithy_doc''"
    and "name call \<noteq> ''list_smithy_topics''"
  shows "dispatch before_name after_name failure_text
           (server search_callback read_callback list_callback) call =
           \<lparr>content = [\<lparr>type = ''text'', text' = before_name @ name call @ after_name\<rparr>],
            isError = Some True\<rparr>
         \<and> serve before_name after_name failure_text
             (server search_callback read_callback list_callback) (earlier @ call # later) =
             serve before_name after_name failure_text
               (server search_callback read_callback list_callback) earlier
             @ \<lparr>content = [\<lparr>type = ''text'', text' = before_name @ name call @ after_name\<rparr>],
                isError = Some True\<rparr>
             # serve before_name after_name failure_text
                 (server search_callback read_callback list_callback) later"
proof -
  have unknown: "map_of (server search_callback read_callback list_callback) (name call) = None"
    using assms by (simp add: server_def)
  have answer: "dispatch before_name after_name failure_text
           (server search_callback read_callback list_callback) call =
           \<lparr>content = [\<lparr>type = ''text'', text' = before_name @ name call @ after_name\<rparr>],
            isError = Some True\<rparr>"
    by (simp add: dispatch_def unknown text_block_def)
  show ?thesis
    using answer by (simp add: serve_def)
qed

theorem unknown_tool_is_error_witness:
  "name bogus_call \<noteq> ''search_smithy_docs'' \<and> name bogus_call \<noteq> ''read_smithy_doc''
   \<and> name bogus_call \<noteq> ''list_smithy_topics''
   \<and> dispatch ''Tool '' '' not found'' message_or_unknown
        (server idle_tool idle_tool idle_tool) bogus_call =
       \<lparr>content = [\<lparr>type = ''text'', text' = ''Tool bogus_tool not found''\<rparr>],
        isError = Some True\<rparr>
   \<and> serve ''Tool '' '' not found'' message_or_unknown
        (server idle_tool idle_tool idle_tool) [list_call, bogus_call, list_call] =
       [idle_response,
        \<lparr>content = [\<lparr>type = ''text'', text' = ''Tool bogus_tool not found''\<rparr>],
         isError = Some True\<rparr>,
        idle_response]"
proof -
  have served: "serve ''Tool '' '' not found'' message_or_unknown
      (server idle_tool idle_tool idle_tool) [list_call] = [idle_response]"
    by (simp add: serve_def dispatch_def server_def list_call_def idle_tool_def)
  show ?thesis
    using served
      unknown_tool_is_error [of bogus_call "''Tool ''" "'' not found''" message_or_unknown
        idle_tool idle_tool idle_tool "[list_call]" "[list_call]"]
    by (simp add: bogus_call_def)
qed

end
